theory Spec2Isabelle
  imports Main "HOL-Library.Word"
begin

section \<open>Font family name mapping between GDI and DirectWrite\<close>

text \<open>
  A shallow embedding of \<^verbatim>\<open>src/core/utils/font_family_util/font_family_util.cpp\<close>.
  The two \<^verbatim>\<open>std::unordered_map<std::string, std::string>\<close> globals are a record of two
  partial maps that every operation receives and returns. The DirectWrite and Win32 objects the
  code calls are records that hold what each method answers. \<^verbatim>\<open>std::optional\<close> is
  \<open>option\<close>; an exception that leaves a \<^verbatim>\<open>noexcept\<close> function ends the process
  (\<^verbatim>\<open>std::terminate\<close>) and is the left summand of the result.

  Not modelled: the log output; memory exhaustion, except at the one allocation the source
  guards (\<^verbatim>\<open>new wchar_t[...]\<close>); a null pointer passed to a lookup, whose key is a
  C string here.
\<close>

subsection \<open>Win32 scalars and strings\<close>

type_synonym HRESULT = "32 word"
type_synonym UINT32 = "32 word"
type_synonym wstring = "16 word list"

definition S_OK :: HRESULT where
  "S_OK = 0"

definition E_FAIL :: HRESULT where
  "E_FAIL = 0x80004005"

definition E_NOT_SUFFICIENT_BUFFER :: HRESULT where
  "E_NOT_SUFFICIENT_BUFFER = 0x8007007A"

definition UINT_MAX :: UINT32 where
  "UINT_MAX = 0xFFFFFFFF"

text \<open>The macro \<^verbatim>\<open>FAILED(hr)\<close> is \<^verbatim>\<open>((HRESULT)(hr)) < 0\<close> on a signed 32-bit value.\<close>

definition FAILED :: "HRESULT \<Rightarrow> bool" where
  "FAILED hr \<longleftrightarrow> sint hr < 0"

text \<open>A wide literal such as \<^verbatim>\<open>L"en_us"\<close>: one UTF-16 unit for each ASCII character.\<close>

definition wide :: "string \<Rightarrow> wstring" where
  "wide s = map of_char s"

text \<open>Reading a \<^verbatim>\<open>const wchar_t*\<close> as a C string stops at the first NUL unit.\<close>

definition c_str :: "wstring \<Rightarrow> wstring" where
  "c_str buf = takeWhile (\<lambda>u. u \<noteq> 0) buf"

subsection \<open>The UTF-16 to UTF-8 converter\<close>

text \<open>
  \<^verbatim>\<open>std::wstring_convert<std::codecvt_utf8_utf16<wchar_t>>::to_bytes\<close>, built without an
  error string, throws \<^verbatim>\<open>std::range_error\<close> when the conversion fails; \<open>None\<close> is that
  throw. A high surrogate followed by a unit that is not a low surrogate makes the conversion
  fail, and so does a low surrogate with no high surrogate before it. A high surrogate that
  ends the input is not an error: the conversion stops there and returns what it has
  converted.
\<close>

definition is_high_surrogate :: "16 word \<Rightarrow> bool" where
  "is_high_surrogate u \<longleftrightarrow> 0xD800 \<le> u \<and> u < 0xDC00"

definition is_low_surrogate :: "16 word \<Rightarrow> bool" where
  "is_low_surrogate u \<longleftrightarrow> 0xDC00 \<le> u \<and> u < 0xE000"

definition surrogate_pair :: "16 word \<Rightarrow> 16 word \<Rightarrow> nat" where
  "surrogate_pair hi lo = 0x10000 + (unat hi - 0xD800) * 0x400 + (unat lo - 0xDC00)"

fun utf16_decode :: "wstring \<Rightarrow> nat list option" where
  "utf16_decode [] = Some []"
| "utf16_decode [u] =
     (if is_high_surrogate u then Some []
      else if is_low_surrogate u then None
      else Some [unat u])"
| "utf16_decode (u # v # rest) =
     (if is_high_surrogate u then
        (if is_low_surrogate v
         then map_option (\<lambda>cs. surrogate_pair u v # cs) (utf16_decode rest)
         else None)
      else if is_low_surrogate u then None
      else map_option (\<lambda>cs. unat u # cs) (utf16_decode (v # rest)))"

definition utf8_encode :: "nat \<Rightarrow> string" where
  "utf8_encode cp =
     (if cp < 0x80 then [char_of cp]
      else if cp < 0x800 then
        [char_of (0xC0 + cp div 0x40), char_of (0x80 + cp mod 0x40)]
      else if cp < 0x10000 then
        [char_of (0xE0 + cp div 0x1000), char_of (0x80 + (cp div 0x40) mod 0x40),
         char_of (0x80 + cp mod 0x40)]
      else
        [char_of (0xF0 + cp div 0x40000), char_of (0x80 + (cp div 0x1000) mod 0x40),
         char_of (0x80 + (cp div 0x40) mod 0x40), char_of (0x80 + cp mod 0x40)])"

definition to_bytes :: "wstring \<Rightarrow> string option" where
  "to_bytes ws = map_option (\<lambda>cs. concat (map utf8_encode cs)) (utf16_decode ws)"

subsection \<open>The platform objects\<close>

text \<open>
  \<^verbatim>\<open>IDWriteLocalizedStrings\<close>: the locale-name/string pairs of one family, and for each
  method the status it reports when the platform itself fails. With a status that is not a
  failure the methods follow the DirectWrite documentation: \<^verbatim>\<open>FindLocaleName\<close> returns
  \<^verbatim>\<open>S_OK\<close> with index \<^verbatim>\<open>UINT_MAX\<close> and \<^verbatim>\<open>exists = FALSE\<close> when no pair has the locale
  name, and the two string getters reject an index that is not below the count.
\<close>

record IDWriteLocalizedStrings =
  locale_strings :: "(wstring \<times> wstring) list"
  FindLocaleName_status :: HRESULT
  GetStringLength_status :: HRESULT
  GetString_status :: HRESULT

definition towlower :: "16 word \<Rightarrow> 16 word" where
  "towlower u = (if 0x41 \<le> u \<and> u \<le> 0x5A then u + 0x20 else u)"

text \<open>Locale names are compared without regard to the case of ASCII letters.\<close>

definition locale_name_eq :: "wstring \<Rightarrow> wstring \<Rightarrow> bool" where
  "locale_name_eq a b \<longleftrightarrow> map towlower a = map towlower b"

fun find_locale :: "(wstring \<times> wstring) list \<Rightarrow> wstring \<Rightarrow> nat option" where
  "find_locale [] locale_name = None"
| "find_locale (p # ps) locale_name =
     (if locale_name_eq (fst p) locale_name then Some 0
      else map_option Suc (find_locale ps locale_name))"

definition GetCount :: "IDWriteLocalizedStrings \<Rightarrow> UINT32" where
  "GetCount ls = word_of_nat (length (locale_strings ls))"

definition FindLocaleName ::
  "IDWriteLocalizedStrings \<Rightarrow> wstring \<Rightarrow> HRESULT \<times> UINT32 \<times> bool" where
  "FindLocaleName ls locale_name =
     (if FAILED (FindLocaleName_status ls) then (FindLocaleName_status ls, UINT_MAX, False)
      else case find_locale (locale_strings ls) locale_name of
             None \<Rightarrow> (S_OK, UINT_MAX, False)
           | Some i \<Rightarrow> (S_OK, word_of_nat i, True))"

definition GetStringLength :: "IDWriteLocalizedStrings \<Rightarrow> UINT32 \<Rightarrow> HRESULT \<times> UINT32" where
  "GetStringLength ls index =
     (if FAILED (GetStringLength_status ls) then (GetStringLength_status ls, UINT_MAX)
      else if index < GetCount ls
      then (S_OK, word_of_nat (length (snd (locale_strings ls ! unat index))))
      else (E_FAIL, UINT_MAX))"

text \<open>On success the buffer holds the string and its terminating NUL.\<close>

definition GetString :: "IDWriteLocalizedStrings \<Rightarrow> UINT32 \<Rightarrow> UINT32 \<Rightarrow> HRESULT \<times> wstring" where
  "GetString ls index len =
     (if FAILED (GetString_status ls) then (GetString_status ls, [])
      else if index < GetCount ls then
        (let s = snd (locale_strings ls ! unat index)
         in if length s < unat len then (S_OK, s @ [0]) else (E_NOT_SUFFICIENT_BUFFER, []))
      else (E_FAIL, []))"

text \<open>An \<^verbatim>\<open>IDWriteFont*\<close> is an opaque handle; \<^verbatim>\<open>LOGFONTW\<close> keeps the one field read.\<close>

type_synonym IDWriteFont = nat

record LOGFONTW =
  lfFaceName :: wstring

record IDWriteFontFamily =
  GetFamilyNames :: "HRESULT \<times> IDWriteLocalizedStrings"
  GetFirstMatchingFont :: "HRESULT \<times> IDWriteFont"

record IDWriteGdiInterop =
  ConvertFontToLOGFONT :: "IDWriteFont \<Rightarrow> HRESULT \<times> LOGFONTW"

text \<open>
  \<^verbatim>\<open>IDWriteFontCollection\<close>: what \<^verbatim>\<open>GetFontFamily(i, &font_family)\<close> answers at each
  index below \<^verbatim>\<open>GetFontFamilyCount()\<close>, which is a \<^verbatim>\<open>UINT32\<close>.
\<close>

record IDWriteFontCollection =
  GetFontFamily :: "(HRESULT \<times> IDWriteFontFamily) list"

definition GetFontFamilyCount :: "IDWriteFontCollection \<Rightarrow> UINT32" where
  "GetFontFamilyCount c = word_of_nat (length (GetFontFamily c))"

record IDWriteFactory =
  GetSystemFontCollection :: "HRESULT \<times> IDWriteFontCollection"
  GetGdiInterop :: "HRESULT \<times> IDWriteGdiInterop"

text \<open>
  What the process environment answers: \<^verbatim>\<open>GetUserDefaultLocaleName\<close> (\<open>None\<close> when it
  returns 0), \<^verbatim>\<open>DWriteCreateFactory\<close>, and whether \<^verbatim>\<open>new wchar_t[n]\<close> succeeds.
\<close>

record platform =
  GetUserDefaultLocaleName :: "wstring option"
  DWriteCreateFactory :: "HRESULT \<times> IDWriteFactory"
  operator_new :: "nat \<Rightarrow> bool"

subsection \<open>The anonymous namespace: name resolution\<close>

datatype abort = Terminate

text \<open>
  Lines 36 to 43: the buffer \<^verbatim>\<open>locale_name\<close> after the call, overwritten with
  \<^verbatim>\<open>L"en_us"\<close> when the call fails.
\<close>

definition user_locale_name :: "platform \<Rightarrow> wstring" where
  "user_locale_name os =
     (case GetUserDefaultLocaleName os of
        None \<Rightarrow> wide ''en_us''
      | Some name \<Rightarrow> name)"

definition get_family_name_of_cur_locale ::
  "platform \<Rightarrow> IDWriteFontFamily \<Rightarrow> abort + string option" where
  "get_family_name_of_cur_locale os font_family =
     (let locale_name = user_locale_name os;
          (hr, family_names) = GetFamilyNames font_family
      in if FAILED hr then Inr None
         else
           let (hr, family_name_index, is_exist) = FindLocaleName family_names locale_name
           in if FAILED hr then Inr None
              else
                let (hr, family_name_len) = GetStringLength family_names family_name_index
                in if FAILED hr then Inr None
                   else if \<not> operator_new os (unat (family_name_len + 1)) then Inr None
                   else
                     let (hr, family_name) =
                           GetString family_names family_name_index (family_name_len + 1)
                     in if FAILED hr then Inr None
                        else case to_bytes (c_str family_name) of
                               None \<Rightarrow> Inl Terminate
                             | Some result \<Rightarrow> Inr (Some result))"

definition get_gdi_and_directwrite_family_name ::
  "platform \<Rightarrow> IDWriteFactory \<Rightarrow> IDWriteFontFamily \<Rightarrow> abort + (string \<times> string) option" where
  "get_gdi_and_directwrite_family_name os factory font_family =
     (case get_family_name_of_cur_locale os font_family of
        Inl a \<Rightarrow> Inl a
      | Inr None \<Rightarrow> Inr None
      | Inr (Some directwrite_family_name) \<Rightarrow>
          let (hr, dwrite_font) = GetFirstMatchingFont font_family
          in if FAILED hr then Inr None
             else
               let (hr, interop) = GetGdiInterop factory
               in if FAILED hr then Inr None
                  else
                    let (hr, lf) = ConvertFontToLOGFONT interop dwrite_font
                    in if FAILED hr then Inr None
                       else (case to_bytes (c_str (lfFaceName lf)) of
                               None \<Rightarrow> Inr None
                             | Some gdi_family_name \<Rightarrow>
                                 Inr (Some (gdi_family_name, directwrite_family_name))))"

subsection \<open>The exported functions\<close>

record tables =
  gdi_to_directwrite :: "string \<rightharpoonup> string"
  directwrite_to_gdi :: "string \<rightharpoonup> string"

definition empty_tables :: tables where
  "empty_tables = \<lparr>gdi_to_directwrite = Map.empty, directwrite_to_gdi = Map.empty\<rparr>"

text \<open>The two assignments \<^verbatim>\<open>gdi_to_directwrite[g] = d; directwrite_to_gdi[d] = g;\<close>.\<close>

definition insert_names :: "tables \<Rightarrow> string \<times> string \<Rightarrow> tables" where
  "insert_names t p =
     (case p of (gdi_family_name, directwrite_family_name) \<Rightarrow>
        t\<lparr>gdi_to_directwrite := (gdi_to_directwrite t)(gdi_family_name \<mapsto> directwrite_family_name),
          directwrite_to_gdi := (directwrite_to_gdi t)(directwrite_family_name \<mapsto> gdi_family_name)\<rparr>)"

text \<open>The body of the \<^verbatim>\<open>for\<close> loop, once for each index in turn.\<close>

fun init_loop ::
  "platform \<Rightarrow> IDWriteFactory \<Rightarrow> (HRESULT \<times> IDWriteFontFamily) list \<Rightarrow> tables
     \<Rightarrow> abort + tables" where
  "init_loop os factory [] t = Inr t"
| "init_loop os factory ((hr, font_family) # rest) t =
     (if FAILED hr then init_loop os factory rest t
      else case get_gdi_and_directwrite_family_name os factory font_family of
             Inl a \<Rightarrow> Inl a
           | Inr None \<Rightarrow> init_loop os factory rest t
           | Inr (Some names) \<Rightarrow> init_loop os factory rest (insert_names t names))"

text \<open>
  \<^verbatim>\<open>int family_count = static_cast<int>(font_collection->GetFontFamilyCount())\<close>; the loop
  visits the indices \<open>0 \<le> i < family_count\<close>.
\<close>

definition family_count :: "IDWriteFontCollection \<Rightarrow> int" where
  "family_count c = sint (GetFontFamilyCount c)"

definition enumerated :: "IDWriteFontCollection \<Rightarrow> (HRESULT \<times> IDWriteFontFamily) list" where
  "enumerated c = take (nat (family_count c)) (GetFontFamily c)"

definition init :: "platform \<Rightarrow> tables \<Rightarrow> abort + (bool \<times> tables)" where
  "init os t =
     (let (hr, factory) = DWriteCreateFactory os
      in if FAILED hr then Inr (False, t)
         else
           let (hr, font_collection) = GetSystemFontCollection factory
           in if FAILED hr then Inr (False, t)
              else case init_loop os factory (enumerated font_collection) t of
                     Inl a \<Rightarrow> Inl a
                   | Inr t' \<Rightarrow> Inr (True, t'))"

definition cleanup :: "tables \<Rightarrow> tables" where
  "cleanup t = t"

text \<open>
  \<^verbatim>\<open>std::unordered_map::at\<close> throws \<^verbatim>\<open>std::out_of_range\<close> for an absent key. The
  handlers of the two lookups catch \<^verbatim>\<open>std::out_of_range\<close> first and every other
  \<^verbatim>\<open>std::exception\<close> second; both paths return \<^verbatim>\<open>nullptr\<close>, which is \<open>None\<close>.
\<close>

datatype exception = out_of_range | std_exception string

definition at :: "(string \<rightharpoonup> string) \<Rightarrow> string \<Rightarrow> exception + string" where
  "at m key = (case m key of None \<Rightarrow> Inl out_of_range | Some v \<Rightarrow> Inr v)"

definition try_catch :: "exception + string \<Rightarrow> string option" where
  "try_catch r =
     (case r of
        Inr v \<Rightarrow> Some v
      | Inl out_of_range \<Rightarrow> None
      | Inl (std_exception what) \<Rightarrow> None)"

definition get_gdi_family_from_directwrite :: "tables \<Rightarrow> string \<Rightarrow> string option \<times> tables" where
  "get_gdi_family_from_directwrite t direct_write_family =
     (try_catch (at (directwrite_to_gdi t) direct_write_family), t)"

definition get_directwrite_family_from_gdi :: "tables \<Rightarrow> string \<Rightarrow> string option \<times> tables" where
  "get_directwrite_family_from_gdi t gdi_family =
     (try_catch (at (gdi_to_directwrite t) gdi_family), t)"

subsection \<open>Notions used by the statements\<close>

text \<open>
  What one iteration of the loop inserts: the pair of names when the handle was retrieved
  and the resolution returned a pair, nothing otherwise.
\<close>

definition resolved_names ::
  "platform \<Rightarrow> IDWriteFactory \<Rightarrow> HRESULT \<times> IDWriteFontFamily \<Rightarrow> (string \<times> string) option" where
  "resolved_names os factory e =
     (if FAILED (fst e) then None
      else case get_gdi_and_directwrite_family_name os factory (snd e) of
             Inl a \<Rightarrow> None
           | Inr r \<Rightarrow> r)"

fun inserted_pairs ::
  "platform \<Rightarrow> IDWriteFactory \<Rightarrow> (HRESULT \<times> IDWriteFontFamily) list \<Rightarrow> (string \<times> string) list" where
  "inserted_pairs os factory [] = []"
| "inserted_pairs os factory (e # rest) =
     (case resolved_names os factory e of
        None \<Rightarrow> inserted_pairs os factory rest
      | Some names \<Rightarrow> names # inserted_pairs os factory rest)"

text \<open>An iteration in which an exception leaves a \<^verbatim>\<open>noexcept\<close> function.\<close>

definition terminates ::
  "platform \<Rightarrow> IDWriteFactory \<Rightarrow> HRESULT \<times> IDWriteFontFamily \<Rightarrow> bool" where
  "terminates os factory e \<longleftrightarrow>
     \<not> FAILED (fst e) \<and> isl (get_gdi_and_directwrite_family_name os factory (snd e))"

text \<open>Some entry of the table of localized names matches the locale name.\<close>

definition has_locale_name :: "IDWriteLocalizedStrings \<Rightarrow> wstring \<Rightarrow> bool" where
  "has_locale_name ls locale_name \<longleftrightarrow>
     list_ex (\<lambda>p. locale_name_eq (fst p) locale_name) (locale_strings ls)"


text \<open>The value of the most recent pair with a given key, in a list ordered by time.\<close>

definition last_write :: "('k \<times> 'v) list \<Rightarrow> 'k \<rightharpoonup> 'v" where
  "last_write ps = map_of (rev ps)"

text \<open>No pair of the list gives the key another value.\<close>

definition no_other_value :: "(string \<times> string) list \<Rightarrow> string \<Rightarrow> string \<Rightarrow> bool" where
  "no_other_value ps k v \<longleftrightarrow> list_all (\<lambda>p. fst p = k \<longrightarrow> snd p = v) ps"

definition swap_names :: "string \<times> string \<Rightarrow> string \<times> string" where
  "swap_names p = (snd p, fst p)"

definition cross_table_invariant :: "tables \<Rightarrow> bool" where
  "cross_table_invariant t \<longleftrightarrow>
     ran (gdi_to_directwrite t) \<subseteq> dom (directwrite_to_gdi t) \<and>
     ran (directwrite_to_gdi t) \<subseteq> dom (gdi_to_directwrite t)"

datatype lookup_call = Gdi_from_directwrite string | Directwrite_from_gdi string

fun perform :: "tables \<Rightarrow> lookup_call \<Rightarrow> string option \<times> tables" where
  "perform t (Gdi_from_directwrite key) = get_gdi_family_from_directwrite t key"
| "perform t (Directwrite_from_gdi key) = get_directwrite_family_from_gdi t key"

definition perform_all :: "tables \<Rightarrow> lookup_call list \<Rightarrow> tables" where
  "perform_all t calls = foldl (\<lambda>t' c. snd (perform t' c)) t calls"

subsection \<open>A mocked font set\<close>

text \<open>
  Platform objects on which every call succeeds: a family with one font and a list of
  localized names, a bridge that gives font 5 the face name \<^verbatim>\<open>Courier New\<close>, font 6 a
  face name that is not well-formed UTF-16 and every other font \<^verbatim>\<open>Arial\<close>, and a
  collection of such families.
\<close>

definition mock_strings :: "(string \<times> wstring) list \<Rightarrow> IDWriteLocalizedStrings" where
  "mock_strings ps =
     \<lparr>locale_strings = map (\<lambda>p. (wide (fst p), snd p)) ps,
      FindLocaleName_status = S_OK, GetStringLength_status = S_OK, GetString_status = S_OK\<rparr>"

definition mock_family :: "IDWriteFont \<Rightarrow> (string \<times> wstring) list \<Rightarrow> IDWriteFontFamily" where
  "mock_family font ps =
     \<lparr>GetFamilyNames = (S_OK, mock_strings ps), GetFirstMatchingFont = (S_OK, font)\<rparr>"

definition mock_face_name :: "IDWriteFont \<Rightarrow> wstring" where
  "mock_face_name font =
     (if font = 5 then wide ''Courier New''
      else if font = 6 then [0xD800, 0x41]
      else wide ''Arial'')"

definition mock_interop :: IDWriteGdiInterop where
  "mock_interop =
     \<lparr>ConvertFontToLOGFONT = (\<lambda>font. (S_OK, \<lparr>lfFaceName = mock_face_name font @ [0]\<rparr>))\<rparr>"

definition mock_factory :: "(HRESULT \<times> IDWriteFontFamily) list \<Rightarrow> IDWriteFactory" where
  "mock_factory fams =
     \<lparr>GetSystemFontCollection = (S_OK, \<lparr>GetFontFamily = fams\<rparr>),
      GetGdiInterop = (S_OK, mock_interop)\<rparr>"

definition mock_platform ::
  "wstring option \<Rightarrow> (HRESULT \<times> IDWriteFontFamily) list \<Rightarrow> platform" where
  "mock_platform locale fams =
     \<lparr>GetUserDefaultLocaleName = locale,
      DWriteCreateFactory = (S_OK, mock_factory fams),
      operator_new = (\<lambda>n. True)\<rparr>"

definition family_A :: IDWriteFontFamily where
  "family_A = mock_family 0 [(''en-us'', wide ''Arial'')]"

definition family_B :: IDWriteFontFamily where
  "family_B = mock_family 1 [(''en-us'', wide ''Arial Black'')]"

definition family_german_only :: IDWriteFontFamily where
  "family_german_only = mock_family 2 [(''de-de'', wide ''Arial'')]"


text \<open>A family whose name is a high surrogate followed by the letter A.\<close>

definition family_unpaired_surrogate :: IDWriteFontFamily where
  "family_unpaired_surrogate = mock_family 4 [(''en-us'', [0xD800, 0x41])]"

definition family_courier :: IDWriteFontFamily where
  "family_courier = mock_family 5 [(''en-us'', wide ''Courier New'')]"

text \<open>A family with a well-formed name whose font has the ill-formed face name.\<close>

definition family_unpaired_face :: IDWriteFontFamily where
  "family_unpaired_face = mock_family 6 [(''en-us'', wide ''Broken'')]"

definition arial_then_arial_black :: platform where
  "arial_then_arial_black =
     mock_platform (Some (wide ''en-us'')) [(S_OK, family_A), (S_OK, family_B)]"

definition arial_black_then_arial :: platform where
  "arial_black_then_arial =
     mock_platform (Some (wide ''en-us'')) [(S_OK, family_B), (S_OK, family_A)]"

definition arial_then_courier :: platform where
  "arial_then_courier =
     mock_platform (Some (wide ''en-us'')) [(S_OK, family_A), (S_OK, family_courier)]"

definition arial_only :: platform where
  "arial_only = mock_platform (Some (wide ''en-us'')) [(S_OK, family_A)]"

definition unpaired_surrogate_platform :: platform where
  "unpaired_surrogate_platform =
     mock_platform (Some (wide ''en-us'')) [(S_OK, family_unpaired_surrogate), (S_OK, family_A)]"

definition unpaired_face_platform :: platform where
  "unpaired_face_platform =
     mock_platform (Some (wide ''en-us'')) [(S_OK, family_unpaired_face), (S_OK, family_A)]"

definition failing_factory_platform :: platform where
  "failing_factory_platform =
     \<lparr>GetUserDefaultLocaleName = Some (wide ''en-us''),
      DWriteCreateFactory = (E_FAIL, mock_factory [(S_OK, family_A)]),
      operator_new = (\<lambda>n. True)\<rparr>"

definition failing_collection_platform :: platform where
  "failing_collection_platform =
     \<lparr>GetUserDefaultLocaleName = Some (wide ''en-us''),
      DWriteCreateFactory =
        (S_OK, \<lparr>GetSystemFontCollection = (E_FAIL, \<lparr>GetFontFamily = [(S_OK, family_A)]\<rparr>),
                 GetGdiInterop = (S_OK, mock_interop)\<rparr>),
      operator_new = (\<lambda>n. True)\<rparr>"

text \<open>The tables the mocked font sets leave behind, written as the insertions made.\<close>

definition arial_tables :: tables where
  "arial_tables =
     insert_names (insert_names empty_tables (''Arial'', ''Arial'')) (''Arial'', ''Arial Black'')"

definition arial_tables_reversed :: tables where
  "arial_tables_reversed =
     insert_names (insert_names empty_tables (''Arial'', ''Arial Black'')) (''Arial'', ''Arial'')"

definition arial_tables_reinit :: tables where
  "arial_tables_reinit = insert_names arial_tables (''Arial'', ''Arial'')"

definition courier_tables :: tables where
  "courier_tables =
     insert_names (insert_names empty_tables (''Arial'', ''Arial''))
       (''Courier New'', ''Courier New'')"

section \<open>Properties\<close>

subsection \<open>Status codes and the localized-strings object\<close>

lemma FAILED_E_FAIL: "FAILED E_FAIL"
  by (simp add: FAILED_def E_FAIL_def)

lemma not_FAILED_S_OK: "\<not> FAILED S_OK"
  by (simp add: FAILED_def S_OK_def)

lemma UINT_MAX_not_less: "\<not> UINT_MAX < (w :: UINT32)"
proof -
  have "unat w < 2 ^ 32"
    using unsigned_less [of w, where 'a = nat] by simp
  then show ?thesis
    by (simp add: UINT_MAX_def word_less_nat_alt)
qed

lemma find_locale_None:
  "\<forall>p \<in> set ps. \<not> locale_name_eq (fst p) n \<Longrightarrow> find_locale ps n = None"
  by (induction ps) simp_all

lemma FindLocaleName_no_match:
  "find_locale (locale_strings ls) n = None \<Longrightarrow>
     \<exists>hr. FindLocaleName ls n = (hr, UINT_MAX, False)"
  by (simp add: FindLocaleName_def)

lemma GetStringLength_UINT_MAX: "FAILED (fst (GetStringLength ls UINT_MAX))"
  by (simp add: GetStringLength_def UINT_MAX_not_less FAILED_E_FAIL)

text \<open>A count below \<open>2\<^sup>3\<^sup>1\<close> survives the cast to \<^verbatim>\<open>int\<close>: every index is visited.\<close>

lemma sint_count: "n < 2 ^ 31 \<Longrightarrow> sint (word_of_nat n :: 32 word) = int n"
  by (simp add: signed_of_nat signed_take_bit_int_eq_self)

lemma enumerated_all:
  "length (GetFontFamily c) < 2 ^ 31 \<Longrightarrow> enumerated c = GetFontFamily c"
  by (simp add: enumerated_def family_count_def GetFontFamilyCount_def sint_count)

subsection \<open>The locale name resolver\<close>







text \<open>
  C1. When no entry of the family's table of localized names matches the resolved locale
  tag, \<^verbatim>\<open>get_family_name_of_cur_locale\<close> returns \<^verbatim>\<open>std::nullopt\<close>: it does not fall back
  to another entry of the table. The lookup itself reports success with the index
  \<^verbatim>\<open>UINT_MAX\<close>; the length query at that index is what fails.
\<close>

theorem no_matching_locale_gives_nullopt:
  assumes "\<not> has_locale_name (snd (GetFamilyNames font_family)) (user_locale_name os)"
  shows "get_family_name_of_cur_locale os font_family = Inr None"
proof -
  obtain hr family_names where g: "GetFamilyNames font_family = (hr, family_names)"
    by (cases "GetFamilyNames font_family")
  with assms have "find_locale (locale_strings family_names) (user_locale_name os) = None"
    by (simp add: find_locale_None has_locale_name_def list_ex_iff)
  then obtain hr' where
    f: "FindLocaleName family_names (user_locale_name os) = (hr', UINT_MAX, False)"
    using FindLocaleName_no_match by blast
  obtain hr'' n where l: "GetStringLength family_names UINT_MAX = (hr'', n)"
    by (cases "GetStringLength family_names UINT_MAX")
  with GetStringLength_UINT_MAX [of family_names] have "FAILED hr''"
    by simp
  with g f l show ?thesis
    by (simp add: get_family_name_of_cur_locale_def)
qed

theorem no_matching_locale_gives_nullopt_witness:
  "\<not> has_locale_name (snd (GetFamilyNames family_german_only))
       (user_locale_name (mock_platform (Some (wide ''en-us'')) []))
   \<and> get_family_name_of_cur_locale (mock_platform (Some (wide ''en-us'')) []) family_german_only
       = Inr None"
proof -
  have h: "\<not> has_locale_name (snd (GetFamilyNames family_german_only))
               (user_locale_name (mock_platform (Some (wide ''en-us'')) []))"
    by code_simp
  from no_matching_locale_gives_nullopt [OF h] h show ?thesis
    by simp
qed




subsection \<open>The loop of \<^verbatim>\<open>init\<close>\<close>

text \<open>
  The loop either meets an iteration that ends the process, or returns the tables with the
  pairs of the successful iterations inserted in order.
\<close>

lemma init_loop_char:
  "init_loop os factory fams t =
     (if list_ex (terminates os factory) fams then Inl Terminate
      else Inr (foldl insert_names t (inserted_pairs os factory fams)))"
proof (induction fams arbitrary: t)
  case Nil
  show ?case by simp
next
  case (Cons e fams)
  obtain hr font_family where e: "e = (hr, font_family)"
    by (cases e)
  show ?case
  proof (cases "FAILED hr")
    case True
    with e Cons show ?thesis
      by (simp add: terminates_def resolved_names_def)
  next
    case False
    show ?thesis
    proof (cases "get_gdi_and_directwrite_family_name os factory font_family")
      case (Inl a)
      with e False show ?thesis
        by (cases a) (simp add: terminates_def)
    next
      case (Inr r)
      with e False Cons show ?thesis
        by (cases r) (simp_all add: terminates_def resolved_names_def)
    qed
  qed
qed

lemma init_char:
  assumes "DWriteCreateFactory os = (hr0, factory)"
      and "GetSystemFontCollection factory = (hr1, font_collection)"
  shows "init os t =
     (if FAILED hr0 \<or> FAILED hr1 then Inr (False, t)
      else if list_ex (terminates os factory) (enumerated font_collection) then Inl Terminate
      else Inr (True, foldl insert_names t
                        (inserted_pairs os factory (enumerated font_collection))))"
  using assms by (simp add: init_def init_loop_char)

lemma init_returns_tables:
  assumes "DWriteCreateFactory os = (hr0, factory)"
      and "GetSystemFontCollection factory = (hr1, font_collection)"
      and "init os t = Inr (True, t')"
  shows "t' = foldl insert_names t (inserted_pairs os factory (enumerated font_collection))"
  using assms(3) init_char [OF assms(1,2), of t] by (simp split: if_splits)

lemma inserted_pairs_append:
  "inserted_pairs os factory (xs @ ys) =
     inserted_pairs os factory xs @ inserted_pairs os factory ys"
  by (induction xs) (simp_all split: option.splits)

lemma foldl_insert_names_gdi:
  "gdi_to_directwrite (foldl insert_names t ps) = gdi_to_directwrite t ++ last_write ps"
  by (induction ps arbitrary: t)
     (simp_all add: last_write_def insert_names_def split: prod.splits)

lemma foldl_insert_names_directwrite:
  "directwrite_to_gdi (foldl insert_names t ps) =
     directwrite_to_gdi t ++ last_write (map swap_names ps)"
  by (induction ps arbitrary: t)
     (simp_all add: last_write_def insert_names_def swap_names_def split: prod.splits)

lemma last_write_agree:
  assumes "no_other_value ys k v"
  shows "last_write (xs @ (k, v) # ys) k = Some v"
proof (cases "map_of (rev ys) k")
  case None
  then show ?thesis
    by (simp add: last_write_def map_add_def)
next
  case (Some x)
  then have "(k, x) \<in> set ys"
    using map_of_SomeD by fastforce
  with assms have "x = v"
    by (auto simp: no_other_value_def list_all_iff)
  with Some show ?thesis
    by (simp add: last_write_def map_add_def)
qed

lemma lookups_simps:
  "fst (get_gdi_family_from_directwrite t k) = directwrite_to_gdi t k"
  "fst (get_directwrite_family_from_gdi t k) = gdi_to_directwrite t k"
  by (simp_all add: get_gdi_family_from_directwrite_def get_directwrite_family_from_gdi_def
      try_catch_def at_def split: option.splits)

subsection \<open>The mocked font sets, evaluated\<close>

lemma init_mock_platform:
  "init (mock_platform locale fams) t =
     (if list_ex (terminates (mock_platform locale fams) (mock_factory fams))
           (enumerated \<lparr>GetFontFamily = fams\<rparr>)
      then Inl Terminate
      else Inr (True, foldl insert_names t
                        (inserted_pairs (mock_platform locale fams) (mock_factory fams)
                           (enumerated \<lparr>GetFontFamily = fams\<rparr>))))"
  using init_char [of "mock_platform locale fams" S_OK "mock_factory fams" S_OK
      "\<lparr>GetFontFamily = fams\<rparr>" t]
  by (simp add: mock_platform_def mock_factory_def not_FAILED_S_OK)

lemma enumerated_one: "enumerated \<lparr>GetFontFamily = [a]\<rparr> = [a]"
  by (simp add: enumerated_all)

lemma enumerated_two: "enumerated \<lparr>GetFontFamily = [a, b]\<rparr> = [a, b]"
  by (simp add: enumerated_all)

lemma arial_then_arial_black_pairs:
  "inserted_pairs arial_then_arial_black (mock_factory [(S_OK, family_A), (S_OK, family_B)])
     [(S_OK, family_A), (S_OK, family_B)] = [(''Arial'', ''Arial''), (''Arial'', ''Arial Black'')]"
  by code_simp

lemma arial_then_arial_black_returns:
  "\<not> list_ex
       (terminates arial_then_arial_black (mock_factory [(S_OK, family_A), (S_OK, family_B)]))
       [(S_OK, family_A), (S_OK, family_B)]"
  by code_simp

lemma init_arial_then_arial_black:
  "init arial_then_arial_black empty_tables = Inr (True, arial_tables)"
  using arial_then_arial_black_pairs arial_then_arial_black_returns
  by (simp add: arial_then_arial_black_def init_mock_platform enumerated_two arial_tables_def)

lemma arial_black_then_arial_pairs:
  "inserted_pairs arial_black_then_arial (mock_factory [(S_OK, family_B), (S_OK, family_A)])
     [(S_OK, family_B), (S_OK, family_A)] = [(''Arial'', ''Arial Black''), (''Arial'', ''Arial'')]"
  by code_simp

lemma arial_black_then_arial_returns:
  "\<not> list_ex
       (terminates arial_black_then_arial (mock_factory [(S_OK, family_B), (S_OK, family_A)]))
       [(S_OK, family_B), (S_OK, family_A)]"
  by code_simp

lemma init_arial_black_then_arial:
  "init arial_black_then_arial empty_tables = Inr (True, arial_tables_reversed)"
  using arial_black_then_arial_pairs arial_black_then_arial_returns
  by (simp add: arial_black_then_arial_def init_mock_platform enumerated_two
      arial_tables_reversed_def)

lemma arial_then_courier_pairs:
  "inserted_pairs arial_then_courier (mock_factory [(S_OK, family_A), (S_OK, family_courier)])
     [(S_OK, family_A), (S_OK, family_courier)]
     = [(''Arial'', ''Arial''), (''Courier New'', ''Courier New'')]"
  by code_simp

lemma arial_then_courier_returns:
  "\<not> list_ex
       (terminates arial_then_courier (mock_factory [(S_OK, family_A), (S_OK, family_courier)]))
       [(S_OK, family_A), (S_OK, family_courier)]"
  by code_simp

lemma init_arial_then_courier:
  "init arial_then_courier empty_tables = Inr (True, courier_tables)"
  using arial_then_courier_pairs arial_then_courier_returns
  by (simp add: arial_then_courier_def init_mock_platform enumerated_two courier_tables_def)

lemma arial_only_pairs:
  "inserted_pairs arial_only (mock_factory [(S_OK, family_A)]) [(S_OK, family_A)]
     = [(''Arial'', ''Arial'')]"
  by code_simp

lemma arial_only_returns:
  "\<not> list_ex (terminates arial_only (mock_factory [(S_OK, family_A)])) [(S_OK, family_A)]"
  by code_simp

lemma init_arial_only:
  "init arial_only t = Inr (True, insert_names t (''Arial'', ''Arial''))"
  using arial_only_pairs arial_only_returns
  by (simp add: arial_only_def init_mock_platform enumerated_one)

lemma unpaired_face_pairs:
  "inserted_pairs unpaired_face_platform
     (mock_factory [(S_OK, family_unpaired_face), (S_OK, family_A)])
     [(S_OK, family_unpaired_face), (S_OK, family_A)] = [(''Arial'', ''Arial'')]"
  by code_simp

lemma unpaired_face_returns:
  "\<not> list_ex
       (terminates unpaired_face_platform
          (mock_factory [(S_OK, family_unpaired_face), (S_OK, family_A)]))
       [(S_OK, family_unpaired_face), (S_OK, family_A)]"
  by code_simp

lemma unpaired_name_ends_process:
  "list_ex
     (terminates unpaired_surrogate_platform
        (mock_factory [(S_OK, family_unpaired_surrogate), (S_OK, family_A)]))
     [(S_OK, family_unpaired_surrogate), (S_OK, family_A)]"
  by code_simp

subsection \<open>Initialization\<close>

text \<open>
  C3. When \<^verbatim>\<open>DWriteCreateFactory\<close> or \<^verbatim>\<open>GetSystemFontCollection\<close> fails, \<^verbatim>\<open>init\<close>
  returns false and both tables are the tables it was called with; on a first call they
  are empty.
\<close>

theorem fatal_failure_returns_false_and_keeps_tables:
  assumes "FAILED (fst (DWriteCreateFactory os)) \<or>
           FAILED (fst (GetSystemFontCollection (snd (DWriteCreateFactory os))))"
  shows "init os t = Inr (False, t)"
  using assms by (auto simp: init_def split: prod.splits)

theorem fatal_failure_returns_false_and_keeps_tables_witness:
  "FAILED (fst (DWriteCreateFactory failing_factory_platform)) \<and>
   init failing_factory_platform empty_tables = Inr (False, empty_tables) \<and>
   FAILED (fst (GetSystemFontCollection (snd (DWriteCreateFactory failing_collection_platform)))) \<and>
   init failing_collection_platform empty_tables = Inr (False, empty_tables)"
proof -
  have h1: "FAILED (fst (DWriteCreateFactory failing_factory_platform))"
    by (simp add: failing_factory_platform_def FAILED_E_FAIL)
  have h2: "FAILED (fst (GetSystemFontCollection
                           (snd (DWriteCreateFactory failing_collection_platform))))"
    by (simp add: failing_collection_platform_def FAILED_E_FAIL)
  from h1 h2
    fatal_failure_returns_false_and_keeps_tables [OF disjI1, OF h1, of empty_tables]
    fatal_failure_returns_false_and_keeps_tables [OF disjI2, OF h2, of empty_tables]
  show ?thesis
    by simp
qed

text \<open>
  C2, as the code has it. For a family of the enumerated set whose resolution returns the
  pair \<open>(legacy, modern)\<close>, after \<^verbatim>\<open>init\<close> has returned true
  \<^verbatim>\<open>get_directwrite_family_from_gdi(legacy)\<close> is \<open>modern\<close> provided no family enumerated
  after it resolves to the same legacy name with another modern name, and
  \<^verbatim>\<open>get_gdi_family_from_directwrite(modern)\<close> is \<open>legacy\<close> provided no family enumerated
  after it resolves to the same modern name with another legacy name.
\<close>

theorem lookups_return_pair_unless_overwritten:
  assumes "DWriteCreateFactory os = (hr0, factory)"
      and "GetSystemFontCollection factory = (hr1, font_collection)"
      and "init os t = Inr (True, t')"
      and "enumerated font_collection = earlier @ e # later"
      and "resolved_names os factory e = Some (legacy, modern)"
  shows "(no_other_value (inserted_pairs os factory later) legacy modern \<longrightarrow>
            fst (get_directwrite_family_from_gdi t' legacy) = Some modern) \<and>
         (no_other_value (map swap_names (inserted_pairs os factory later)) modern legacy \<longrightarrow>
            fst (get_gdi_family_from_directwrite t' modern) = Some legacy)"
proof -
  let ?before = "inserted_pairs os factory earlier"
  let ?after = "inserted_pairs os factory later"
  have pairs: "inserted_pairs os factory (enumerated font_collection)
                 = ?before @ (legacy, modern) # ?after"
    using assms(4,5) by (simp add: inserted_pairs_append)
  have t': "t' = foldl insert_names t (?before @ (legacy, modern) # ?after)"
    using init_returns_tables [OF assms(1,2,3)] pairs by simp
  have g: "gdi_to_directwrite t' =
             gdi_to_directwrite t ++ last_write (?before @ (legacy, modern) # ?after)"
    unfolding t' by (rule foldl_insert_names_gdi)
  have d: "directwrite_to_gdi t' =
             directwrite_to_gdi t ++
               last_write (map swap_names ?before @ (modern, legacy) # map swap_names ?after)"
    unfolding t'
    by (simp only: foldl_insert_names_directwrite map_append list.map swap_names_def
        fst_conv snd_conv)
  have "fst (get_directwrite_family_from_gdi t' legacy) = Some modern"
    if "no_other_value ?after legacy modern"
    using last_write_agree [OF that, of ?before]
    by (simp add: lookups_simps g map_add_def)
  moreover have "fst (get_gdi_family_from_directwrite t' modern) = Some legacy"
    if "no_other_value (map swap_names ?after) modern legacy"
    using last_write_agree [OF that, of "map swap_names ?before"]
    by (simp add: lookups_simps d map_add_def)
  ultimately show ?thesis
    by blast
qed

theorem lookups_return_pair_unless_overwritten_witness:
  "DWriteCreateFactory arial_then_courier
     = (S_OK, mock_factory [(S_OK, family_A), (S_OK, family_courier)]) \<and>
   GetSystemFontCollection (mock_factory [(S_OK, family_A), (S_OK, family_courier)])
     = (S_OK, \<lparr>GetFontFamily = [(S_OK, family_A), (S_OK, family_courier)]\<rparr>) \<and>
   init arial_then_courier empty_tables = Inr (True, courier_tables) \<and>
   enumerated \<lparr>GetFontFamily = [(S_OK, family_A), (S_OK, family_courier)]\<rparr>
     = [] @ (S_OK, family_A) # [(S_OK, family_courier)] \<and>
   resolved_names arial_then_courier (mock_factory [(S_OK, family_A), (S_OK, family_courier)])
     (S_OK, family_A) = Some (''Arial'', ''Arial'') \<and>
   no_other_value
     (inserted_pairs arial_then_courier
        (mock_factory [(S_OK, family_A), (S_OK, family_courier)]) [(S_OK, family_courier)])
     ''Arial'' ''Arial'' \<and>
   fst (get_directwrite_family_from_gdi courier_tables ''Arial'') = Some ''Arial'' \<and>
   no_other_value
     (map swap_names
        (inserted_pairs arial_then_courier
           (mock_factory [(S_OK, family_A), (S_OK, family_courier)]) [(S_OK, family_courier)]))
     ''Arial'' ''Arial'' \<and>
   fst (get_gdi_family_from_directwrite courier_tables ''Arial'') = Some ''Arial''"
proof -
  let ?fams = "[(S_OK, family_A), (S_OK, family_courier)]"
  have h1: "DWriteCreateFactory arial_then_courier = (S_OK, mock_factory ?fams)"
    by (simp add: arial_then_courier_def mock_platform_def)
  have h2: "GetSystemFontCollection (mock_factory ?fams) = (S_OK, \<lparr>GetFontFamily = ?fams\<rparr>)"
    by (simp add: mock_factory_def)
  have h4: "enumerated \<lparr>GetFontFamily = ?fams\<rparr> = [] @ (S_OK, family_A) # [(S_OK, family_courier)]"
    by (simp add: enumerated_two)
  have h5: "resolved_names arial_then_courier (mock_factory ?fams) (S_OK, family_A)
              = Some (''Arial'', ''Arial'')"
    by code_simp
  have h6: "no_other_value
              (inserted_pairs arial_then_courier (mock_factory ?fams) [(S_OK, family_courier)])
              ''Arial'' ''Arial''"
    by code_simp
  have h7: "no_other_value
              (map swap_names
                 (inserted_pairs arial_then_courier (mock_factory ?fams)
                    [(S_OK, family_courier)]))
              ''Arial'' ''Arial''"
    by code_simp
  from lookups_return_pair_unless_overwritten [OF h1 h2 init_arial_then_courier h4 h5]
    h1 h2 h4 h5 h6 h7 init_arial_then_courier
  show ?thesis
    by blast
qed

text \<open>
  C2, as the claim states it, fails on the mocked set of the two Arial families: the
  first family resolves to \<open>(Arial, Arial)\<close>, \<^verbatim>\<open>init\<close> returns true, and the lookup of
  the legacy name \<^verbatim>\<open>Arial\<close> gives \<^verbatim>\<open>Arial Black\<close>, the name the second family wrote.
\<close>

theorem earlier_pair_overwritten_counterexample:
  "init arial_then_arial_black empty_tables = Inr (True, arial_tables) \<and>
   enumerated (snd (GetSystemFontCollection (snd (DWriteCreateFactory arial_then_arial_black))))
     ! 0 = (S_OK, family_A) \<and>
   \<not> FAILED S_OK \<and>
   get_gdi_and_directwrite_family_name arial_then_arial_black
     (snd (DWriteCreateFactory arial_then_arial_black)) family_A
     = Inr (Some (''Arial'', ''Arial'')) \<and>
   fst (get_directwrite_family_from_gdi arial_tables ''Arial'') = Some ''Arial Black'' \<and>
   fst (get_directwrite_family_from_gdi arial_tables ''Arial'') \<noteq> Some ''Arial''"
proof -
  have "get_gdi_and_directwrite_family_name arial_then_arial_black
          (snd (DWriteCreateFactory arial_then_arial_black)) family_A
          = Inr (Some (''Arial'', ''Arial''))"
    by code_simp
  moreover have
    "enumerated (snd (GetSystemFontCollection (snd (DWriteCreateFactory arial_then_arial_black))))
       ! 0 = (S_OK, family_A)"
    by (simp add: arial_then_arial_black_def mock_platform_def mock_factory_def enumerated_two)
  moreover have
    "fst (get_directwrite_family_from_gdi arial_tables ''Arial'') = Some ''Arial Black''"
    by (simp add: lookups_simps arial_tables_def insert_names_def)
  ultimately show ?thesis
    by (simp add: init_arial_then_arial_black not_FAILED_S_OK)
qed

text \<open>
  C4. After \<^verbatim>\<open>init\<close> has returned true, each table is the table before the call
  overridden by the last write of each key among the pairs of this call, whatever the table
  held before (so also what an earlier call left); no call that returns removes a key.
  On the two Arial families, in either order, \<^verbatim>\<open>directwrite_to_gdi["Arial Black"]\<close> is
  \<^verbatim>\<open>Arial\<close> and \<^verbatim>\<open>gdi_to_directwrite["Arial"]\<close> is the modern name resolved last.
\<close>

theorem init_last_write_wins:
  assumes "DWriteCreateFactory os = (hr0, factory)"
      and "GetSystemFontCollection factory = (hr1, font_collection)"
      and "init os t = Inr (ok, t')"
  shows "(ok \<longrightarrow>
            gdi_to_directwrite t' =
              gdi_to_directwrite t ++
                last_write (inserted_pairs os factory (enumerated font_collection)) \<and>
            directwrite_to_gdi t' =
              directwrite_to_gdi t ++
                last_write (map swap_names
                              (inserted_pairs os factory (enumerated font_collection)))) \<and>
         dom (gdi_to_directwrite t) \<subseteq> dom (gdi_to_directwrite t') \<and>
         dom (directwrite_to_gdi t) \<subseteq> dom (directwrite_to_gdi t') \<and>
         init arial_then_arial_black empty_tables = Inr (True, arial_tables) \<and>
         directwrite_to_gdi arial_tables ''Arial Black'' = Some ''Arial'' \<and>
         gdi_to_directwrite arial_tables ''Arial'' = Some ''Arial Black'' \<and>
         init arial_black_then_arial empty_tables = Inr (True, arial_tables_reversed) \<and>
         directwrite_to_gdi arial_tables_reversed ''Arial Black'' = Some ''Arial'' \<and>
         gdi_to_directwrite arial_tables_reversed ''Arial'' = Some ''Arial''"
proof -
  have ok: "gdi_to_directwrite t' =
              gdi_to_directwrite t ++
                last_write (inserted_pairs os factory (enumerated font_collection)) \<and>
            directwrite_to_gdi t' =
              directwrite_to_gdi t ++
                last_write (map swap_names
                              (inserted_pairs os factory (enumerated font_collection)))"
    if ok
    using init_returns_tables [OF assms(1,2), of t t'] assms(3) that
    by (simp add: foldl_insert_names_gdi foldl_insert_names_directwrite)
  have not_ok: "t' = t" if "\<not> ok"
    using init_char [OF assms(1,2), of t] assms(3) that by (simp split: if_splits)
  have dom1: "dom (gdi_to_directwrite t) \<subseteq> dom (gdi_to_directwrite t')"
    using ok not_ok by (cases ok) auto
  have dom2: "dom (directwrite_to_gdi t) \<subseteq> dom (directwrite_to_gdi t')"
    using ok not_ok by (cases ok) auto
  have scenario1: "directwrite_to_gdi arial_tables ''Arial Black'' = Some ''Arial'' \<and>
         gdi_to_directwrite arial_tables ''Arial'' = Some ''Arial Black''"
    by (simp add: arial_tables_def insert_names_def)
  have scenario2: "directwrite_to_gdi arial_tables_reversed ''Arial Black'' = Some ''Arial'' \<and>
         gdi_to_directwrite arial_tables_reversed ''Arial'' = Some ''Arial''"
    by (simp add: arial_tables_reversed_def insert_names_def)
  from ok dom1 dom2 scenario1 scenario2 init_arial_then_arial_black init_arial_black_then_arial
  show ?thesis
    by blast
qed

text \<open>
  A second call, on a font set that has lost the family Arial Black: the key \<^verbatim>\<open>Arial\<close>
  takes the new value and the entry of \<^verbatim>\<open>Arial Black\<close> stays.
\<close>

theorem init_last_write_wins_witness:
  "DWriteCreateFactory arial_only = (S_OK, mock_factory [(S_OK, family_A)]) \<and>
   GetSystemFontCollection (mock_factory [(S_OK, family_A)])
     = (S_OK, \<lparr>GetFontFamily = [(S_OK, family_A)]\<rparr>) \<and>
   init arial_only arial_tables = Inr (True, arial_tables_reinit) \<and>
   gdi_to_directwrite arial_tables ''Arial'' = Some ''Arial Black'' \<and>
   gdi_to_directwrite arial_tables_reinit ''Arial'' = Some ''Arial'' \<and>
   directwrite_to_gdi arial_tables_reinit ''Arial Black'' = Some ''Arial'' \<and>
   ''Arial Black'' \<in> dom (directwrite_to_gdi arial_tables_reinit)"
proof -
  let ?fams = "[(S_OK, family_A)]"
  have h1: "DWriteCreateFactory arial_only = (S_OK, mock_factory ?fams)"
    by (simp add: arial_only_def mock_platform_def)
  have h2: "GetSystemFontCollection (mock_factory ?fams) = (S_OK, \<lparr>GetFontFamily = ?fams\<rparr>)"
    by (simp add: mock_factory_def)
  have h3: "init arial_only arial_tables = Inr (True, arial_tables_reinit)"
    by (simp add: init_arial_only arial_tables_reinit_def)
  have before: "gdi_to_directwrite arial_tables ''Arial'' = Some ''Arial Black''"
    "directwrite_to_gdi arial_tables ''Arial Black'' = Some ''Arial''"
    by (simp_all add: arial_tables_def insert_names_def)
  have "gdi_to_directwrite arial_tables_reinit =
          gdi_to_directwrite arial_tables ++ last_write [(''Arial'', ''Arial'')]"
    and "dom (directwrite_to_gdi arial_tables) \<subseteq> dom (directwrite_to_gdi arial_tables_reinit)"
    and "directwrite_to_gdi arial_tables_reinit =
          directwrite_to_gdi arial_tables ++ last_write (map swap_names [(''Arial'', ''Arial'')])"
    using init_last_write_wins [OF h1 h2 h3, unfolded enumerated_one arial_only_pairs]
    by simp_all
  with before have "gdi_to_directwrite arial_tables_reinit ''Arial'' = Some ''Arial''"
    and "directwrite_to_gdi arial_tables_reinit ''Arial Black'' = Some ''Arial''"
    and "''Arial Black'' \<in> dom (directwrite_to_gdi arial_tables_reinit)"
    by (auto simp: last_write_def swap_names_def map_add_def)
  with h1 h2 h3 before show ?thesis
    by blast
qed

text \<open>
  C6. A failure inside one family's resolution should cost that family its entries and
  nothing else. That is what happens when the face name of the font cannot be converted:
  the conversion in \<^verbatim>\<open>get_gdi_and_directwrite_family_name\<close> is inside a \<^verbatim>\<open>try\<close>, the
  family is skipped and \<^verbatim>\<open>init\<close> returns true with the entries of the next family. The
  same conversion in \<^verbatim>\<open>get_family_name_of_cur_locale\<close> (line 103) has no handler and the
  function is \<^verbatim>\<open>noexcept\<close>: on a family whose localized name is a high surrogate followed
  by the letter A, the process is terminated and \<^verbatim>\<open>init\<close> does not return.
\<close>

theorem unconvertible_family_name_ends_init:
  "to_bytes [0xD800, 0x41] = None \<and>
   get_gdi_and_directwrite_family_name unpaired_face_platform
     (snd (DWriteCreateFactory unpaired_face_platform)) family_unpaired_face = Inr None \<and>
   init unpaired_face_platform empty_tables
     = Inr (True, insert_names empty_tables (''Arial'', ''Arial'')) \<and>
   get_family_name_of_cur_locale unpaired_surrogate_platform family_unpaired_surrogate
     = Inl Terminate \<and>
   init unpaired_surrogate_platform empty_tables = Inl Terminate"
proof -
  have "to_bytes [0xD800, 0x41] = None"
    by code_simp
  moreover have
    "get_gdi_and_directwrite_family_name unpaired_face_platform
       (snd (DWriteCreateFactory unpaired_face_platform)) family_unpaired_face = Inr None"
    by code_simp
  moreover have
    "init unpaired_face_platform empty_tables
       = Inr (True, insert_names empty_tables (''Arial'', ''Arial''))"
    using unpaired_face_pairs unpaired_face_returns
    by (simp add: unpaired_face_platform_def init_mock_platform enumerated_two)
  moreover have
    "get_family_name_of_cur_locale unpaired_surrogate_platform family_unpaired_surrogate
       = Inl Terminate"
    by code_simp
  moreover have "init unpaired_surrogate_platform empty_tables = Inl Terminate"
    using unpaired_name_ends_process
    by (simp add: unpaired_surrogate_platform_def init_mock_platform enumerated_two)
  ultimately show ?thesis
    by blast
qed

subsection \<open>Lookups and teardown\<close>

text \<open>
  C5. A lookup of a key that its table does not hold returns \<^verbatim>\<open>nullptr\<close>, in both
  directions, and the handlers turn every exception of the guarded block into
  \<^verbatim>\<open>nullptr\<close>; the result of a lookup is always a value.
\<close>

theorem lookup_miss_returns_null:
  "(directwrite_to_gdi t key = None \<longrightarrow>
      fst (get_gdi_family_from_directwrite t key) = None) \<and>
   (gdi_to_directwrite t key = None \<longrightarrow>
      fst (get_directwrite_family_from_gdi t key) = None) \<and>
   try_catch (Inl e) = None"
  by (cases e) (simp_all add: lookups_simps try_catch_def)

theorem lookup_miss_returns_null_witness:
  "directwrite_to_gdi arial_tables ''Helvetica'' = None \<and>
   fst (get_gdi_family_from_directwrite arial_tables ''Helvetica'') = None \<and>
   gdi_to_directwrite arial_tables ''Arial Black'' = None \<and>
   fst (get_directwrite_family_from_gdi arial_tables ''Arial Black'') = None \<and>
   try_catch (Inl (std_exception ''bad allocation'')) = None"
proof -
  have h1: "directwrite_to_gdi arial_tables ''Helvetica'' = None"
    by (simp add: arial_tables_def insert_names_def empty_tables_def)
  have h2: "gdi_to_directwrite arial_tables ''Arial Black'' = None"
    by (simp add: arial_tables_def insert_names_def empty_tables_def)
  from lookup_miss_returns_null [of arial_tables "''Helvetica''" "std_exception ''bad allocation''"]
    lookup_miss_returns_null [of arial_tables "''Arial Black''" "std_exception ''bad allocation''"]
    h1 h2
  show ?thesis
    by simp
qed

text \<open>
  C8. \<^verbatim>\<open>cleanup\<close> leaves both tables as they were, so each lookup after it returns what
  the same lookup returned before it.
\<close>

theorem cleanup_keeps_tables:
  "cleanup t = t \<and>
   fst (get_gdi_family_from_directwrite (cleanup t) key)
     = fst (get_gdi_family_from_directwrite t key) \<and>
   fst (get_directwrite_family_from_gdi (cleanup t) key)
     = fst (get_directwrite_family_from_gdi t key)"
  by (simp add: cleanup_def)

theorem cleanup_keeps_tables_witness:
  "cleanup arial_tables = arial_tables \<and>
   fst (get_gdi_family_from_directwrite (cleanup arial_tables) ''Arial Black'') = Some ''Arial'' \<and>
   fst (get_directwrite_family_from_gdi (cleanup arial_tables) ''Arial'') = Some ''Arial Black''"
proof -
  have "fst (get_gdi_family_from_directwrite arial_tables ''Arial Black'') = Some ''Arial''"
    and "fst (get_directwrite_family_from_gdi arial_tables ''Arial'') = Some ''Arial Black''"
    by (simp_all add: lookups_simps arial_tables_def insert_names_def)
  with cleanup_keeps_tables [of arial_tables "''Arial Black''"]
    cleanup_keeps_tables [of arial_tables "''Arial''"]
  show ?thesis
    by simp
qed

lemma insert_names_invariant:
  "cross_table_invariant t \<Longrightarrow> cross_table_invariant (insert_names t p)"
  by (cases p) (auto simp: cross_table_invariant_def insert_names_def ran_def split: if_splits)

lemma foldl_insert_names_invariant:
  "cross_table_invariant t \<Longrightarrow> cross_table_invariant (foldl insert_names t ps)"
  by (induction ps arbitrary: t) (simp_all add: insert_names_invariant)

lemma init_invariant:
  assumes "cross_table_invariant t" and "init os t = Inr (ok, t')"
  shows "cross_table_invariant t'"
proof -
  obtain hr0 factory where f: "DWriteCreateFactory os = (hr0, factory)"
    by (cases "DWriteCreateFactory os")
  obtain hr1 font_collection where c: "GetSystemFontCollection factory = (hr1, font_collection)"
    by (cases "GetSystemFontCollection factory")
  from assms(2) init_char [OF f c, of t]
  have "t' = t \<or>
        t' = foldl insert_names t (inserted_pairs os factory (enumerated font_collection))"
    by (auto split: if_splits)
  with assms(1) show ?thesis
    by (auto simp: foldl_insert_names_invariant)
qed

text \<open>
  C9. The empty tables satisfy the cross-table invariant (every value of one table is a
  key of the other), and \<^verbatim>\<open>init\<close>, whenever it returns, \<^verbatim>\<open>cleanup\<close> and the two lookups
  keep it.
\<close>

theorem cross_table_invariant_kept:
  assumes "cross_table_invariant t"
  shows "cross_table_invariant empty_tables \<and>
         (init os t = Inr (ok, t') \<longrightarrow> cross_table_invariant t') \<and>
         cross_table_invariant (cleanup t) \<and>
         cross_table_invariant (snd (get_gdi_family_from_directwrite t key)) \<and>
         cross_table_invariant (snd (get_directwrite_family_from_gdi t key))"
  using assms init_invariant [of t os ok t']
  by (simp add: cleanup_def get_gdi_family_from_directwrite_def
      get_directwrite_family_from_gdi_def cross_table_invariant_def empty_tables_def)

theorem cross_table_invariant_kept_witness:
  "cross_table_invariant empty_tables \<and>
   init arial_then_arial_black empty_tables = Inr (True, arial_tables) \<and>
   cross_table_invariant arial_tables \<and>
   cross_table_invariant (cleanup empty_tables) \<and>
   cross_table_invariant (snd (get_gdi_family_from_directwrite empty_tables ''Arial'')) \<and>
   cross_table_invariant (snd (get_directwrite_family_from_gdi empty_tables ''Arial''))"
proof -
  have h: "cross_table_invariant empty_tables"
    by (simp add: cross_table_invariant_def empty_tables_def)
  from cross_table_invariant_kept [OF h, of arial_then_arial_black True arial_tables "''Arial''"]
    init_arial_then_arial_black
  show ?thesis
    by simp
qed

lemma perform_keeps_tables: "snd (perform t c) = t"
  by (cases c)
     (simp_all add: get_gdi_family_from_directwrite_def get_directwrite_family_from_gdi_def)

lemma perform_all_keeps_tables: "perform_all t calls = t"
  unfolding perform_all_def by (induction calls) (simp_all add: perform_keeps_tables)

text \<open>
  C10. Each lookup returns the tables it was given, so after any sequence of lookups the
  tables are the same and a lookup returns what it returned before the sequence.
\<close>

theorem lookups_are_read_only:
  "snd (get_gdi_family_from_directwrite t key) = t \<and>
   snd (get_directwrite_family_from_gdi t key) = t \<and>
   perform_all t calls = t \<and>
   fst (perform (perform_all t calls) c) = fst (perform t c)"
  by (simp add: perform_all_keeps_tables get_gdi_family_from_directwrite_def
      get_directwrite_family_from_gdi_def)

theorem lookups_are_read_only_witness:
  "snd (get_gdi_family_from_directwrite arial_tables ''Arial Black'') = arial_tables \<and>
   snd (get_directwrite_family_from_gdi arial_tables ''Arial Black'') = arial_tables \<and>
   fst (perform (perform_all arial_tables
                   [Gdi_from_directwrite ''Arial Black'', Directwrite_from_gdi ''Helvetica''])
          (Gdi_from_directwrite ''Arial Black'')) = Some ''Arial''"
proof -
  have "fst (perform arial_tables (Gdi_from_directwrite ''Arial Black'')) = Some ''Arial''"
    by (simp add: lookups_simps arial_tables_def insert_names_def)
  with lookups_are_read_only [of arial_tables "''Arial Black''"
      "[Gdi_from_directwrite ''Arial Black'', Directwrite_from_gdi ''Helvetica'']"
      "Gdi_from_directwrite ''Arial Black''"]
  show ?thesis
    by simp
qed

end
